theory Spec2Isabelle
  imports Main
begin

section \<open>Python values, exceptions and effects\<close>

text \<open>
  The module \<^verbatim>\<open>resultite/result.py\<close> is dynamically typed: \<^verbatim>\<open>Ok\<close> holds any object,
  \<^verbatim>\<open>Err.__init__\<close> tests its argument with \<^verbatim>\<open>isinstance(error, Exception)\<close>, and every
  combinator catches with \<^verbatim>\<open>except Exception\<close>. The embedding therefore works over a
  universe of Python objects: \<^verbatim>\<open>None\<close>, integers, strings, exception objects and the
  two \<^verbatim>\<open>Result\<close> variants themselves (a \<^verbatim>\<open>Result\<close> may hold another one).

  An exception object carries its class, its message and its identity. Python compares
  exceptions by identity (\<^verbatim>\<open>ValueError("x") == ValueError("x")\<close> is false), which is
  what the field \<open>exc_id\<close> is for: two records are the same object when they agree
  in every field, the identity included. An error, in the sense of the spec's error
  capability, is an object whose class derives from \<^verbatim>\<open>Exception\<close>.
\<close>

datatype exc_class =
    BaseException | Exception | TypeError | ValueError | RuntimeError
  | NotImplementedError | ZeroDivisionError | AttributeError
  | KeyboardInterrupt | SystemExit | GeneratorExit | CancelledError

text \<open>
  \<^verbatim>\<open>issubclass(c, Exception)\<close>: of the classes above, \<^verbatim>\<open>BaseException\<close> itself,
  \<^verbatim>\<open>KeyboardInterrupt\<close>, \<^verbatim>\<open>SystemExit\<close>, \<^verbatim>\<open>GeneratorExit\<close> and
  \<^verbatim>\<open>asyncio.CancelledError\<close> do not derive from \<^verbatim>\<open>Exception\<close>.
\<close>

fun issubclass_Exception :: "exc_class \<Rightarrow> bool" where
  "issubclass_Exception BaseException = False"
| "issubclass_Exception KeyboardInterrupt = False"
| "issubclass_Exception SystemExit = False"
| "issubclass_Exception GeneratorExit = False"
| "issubclass_Exception CancelledError = False"
| "issubclass_Exception c = True"

record pyexc =
  exc_id :: nat
  exc_class :: exc_class
  exc_msg :: string

datatype pyval =
    PyNone
  | PyInt int
  | PyStr string
  | PyExc pyexc
  | PyResult result
and result =
    Ok pyval
  | Err pyval

text \<open>\<^verbatim>\<open>isinstance(x, Exception)\<close>, the spec's error capability.\<close>

fun isinstance_Exception :: "pyval \<Rightarrow> bool" where
  "isinstance_Exception (PyExc e) = issubclass_Exception (exc_class e)"
| "isinstance_Exception x = False"

text \<open>
  A call of Python code may read and write the program's state, and it either returns a
  value or raises an exception object. The state holds the allocation counter that gives
  a new exception object its identity, and a component \<open>user\<close> for whatever the
  caller's functions read and write.
\<close>

record 'u world =
  next_id :: nat
  user :: 'u

type_synonym ('u, 'a) py = "'u world \<Rightarrow> (pyexc + 'a) \<times> 'u world"

definition py_return :: "'a \<Rightarrow> ('u, 'a) py" where
  "py_return x = (\<lambda>s. (Inr x, s))"

definition py_raise :: "pyexc \<Rightarrow> ('u, 'a) py" where
  "py_raise e = (\<lambda>s. (Inl e, s))"

definition py_bind :: "('u, 'a) py \<Rightarrow> ('a \<Rightarrow> ('u, 'b) py) \<Rightarrow> ('u, 'b) py" where
  "py_bind m k = (\<lambda>s. case m s of (Inl e, s') \<Rightarrow> (Inl e, s') | (Inr x, s') \<Rightarrow> k x s')"

text \<open>\<^verbatim>\<open>cls(msg)\<close>: a new exception object, with the next free identity.\<close>

definition new_exc :: "exc_class \<Rightarrow> string \<Rightarrow> ('u, pyexc) py" where
  "new_exc cls msg =
     (\<lambda>s. (Inr \<lparr>exc_id = next_id s, exc_class = cls, exc_msg = msg\<rparr>,
           s\<lparr>next_id := Suc (next_id s)\<rparr>))"

text \<open>
  \<^verbatim>\<open>try: body / except Exception as exc: handler(exc)\<close>. An exception whose class does
  not derive from \<^verbatim>\<open>Exception\<close> is not caught and goes on to the caller.
\<close>

definition try_except_Exception ::
  "('u, 'a) py \<Rightarrow> (pyexc \<Rightarrow> ('u, 'a) py) \<Rightarrow> ('u, 'a) py" where
  "try_except_Exception body handler =
     (\<lambda>s. case body s of
             (Inr x, s') \<Rightarrow> (Inr x, s')
           | (Inl exc, s') \<Rightarrow>
               if issubclass_Exception (exc_class exc) then handler exc s'
               else (Inl exc, s'))"

text \<open>
  \<^verbatim>\<open>raise x\<close> for an arbitrary object: Python raises \<open>x\<close> when it is an exception
  object and a \<^verbatim>\<open>TypeError\<close> otherwise.
\<close>

fun raise_obj :: "pyval \<Rightarrow> ('u, 'a) py" where
  "raise_obj (PyExc e) = py_raise e"
| "raise_obj x = py_bind (new_exc TypeError ''exceptions must derive from BaseException'') py_raise"

section \<open>The classes \<^verbatim>\<open>Ok\<close> and \<^verbatim>\<open>Err\<close>\<close>

text \<open>
  \<^verbatim>\<open>Ok.__init__\<close> stores its argument; \<^verbatim>\<open>Err.__init__\<close> raises
  \<^verbatim>\<open>TypeError("Err expects an Exception instance.")\<close> unless its argument is an
  instance of \<^verbatim>\<open>Exception\<close>, and stores it otherwise.
\<close>

definition Ok_init :: "pyval \<Rightarrow> ('u, result) py" where
  "Ok_init v = py_return (Ok v)"

definition Err_init :: "pyval \<Rightarrow> ('u, result) py" where
  "Err_init error =
     (if \<not> isinstance_Exception error
      then py_bind (new_exc TypeError ''Err expects an Exception instance.'') py_raise
      else py_return (Err error))"

text \<open>\<^verbatim>\<open>Result.is_ok\<close> and \<^verbatim>\<open>Result.is_err\<close>: \<^verbatim>\<open>isinstance(self, Ok)\<close>, \<^verbatim>\<open>isinstance(self, Err)\<close>.\<close>

fun is_ok :: "result \<Rightarrow> bool" where
  "is_ok (Ok v) = True"
| "is_ok (Err e) = False"

fun is_err :: "result \<Rightarrow> bool" where
  "is_err (Ok v) = False"
| "is_err (Err e) = True"

text \<open>\<^verbatim>\<open>Ok.unwrap\<close> returns \<^verbatim>\<open>self._value\<close>; \<^verbatim>\<open>Err.unwrap\<close> is \<^verbatim>\<open>raise self._error\<close>.\<close>

fun unwrap :: "result \<Rightarrow> ('u, pyval) py" where
  "unwrap (Ok v) = py_return v"
| "unwrap (Err error) = raise_obj error"

fun unwrap_or :: "result \<Rightarrow> pyval \<Rightarrow> pyval" where
  "unwrap_or (Ok v) dflt = v"
| "unwrap_or (Err error) dflt = dflt"

text \<open>
  \<^verbatim>\<open>Ok.__eq__\<close> and \<^verbatim>\<open>Err.__eq__\<close>:
  \<^verbatim>\<open>isinstance(other, Ok) and self._value == other._value\<close>, and the same with
  \<^verbatim>\<open>Err\<close> and \<^verbatim>\<open>_error\<close>. The operator \<^verbatim>\<open>==\<close> on the payloads is Python's:
  by value on \<^verbatim>\<open>None\<close>, integers and strings, by identity on exception objects, and
  through \<^verbatim>\<open>__eq__\<close> again on a nested \<^verbatim>\<open>Result\<close>. \<^verbatim>\<open>Result.__ne__\<close> is
  \<^verbatim>\<open>not self.__eq__(other)\<close>.
\<close>

fun py_eq :: "pyval \<Rightarrow> pyval \<Rightarrow> bool"
and result_eq :: "result \<Rightarrow> pyval \<Rightarrow> bool" where
  "py_eq PyNone y = (case y of PyNone \<Rightarrow> True | _ \<Rightarrow> False)"
| "py_eq (PyInt i) y = (case y of PyInt j \<Rightarrow> i = j | _ \<Rightarrow> False)"
| "py_eq (PyStr a) y = (case y of PyStr b \<Rightarrow> a = b | _ \<Rightarrow> False)"
| "py_eq (PyExc e) y = (case y of PyExc e' \<Rightarrow> e = e' | _ \<Rightarrow> False)"
| "py_eq (PyResult r) y = result_eq r y"
| "result_eq (Ok val) other =
     (case other of PyResult (Ok val') \<Rightarrow> py_eq val val' | _ \<Rightarrow> False)"
| "result_eq (Err error) other =
     (case other of PyResult (Err error') \<Rightarrow> py_eq error error' | _ \<Rightarrow> False)"

definition result_ne :: "result \<Rightarrow> pyval \<Rightarrow> bool" where
  "result_ne self other = (\<not> result_eq self other)"

text \<open>
  The combinators. Each function has one equation for the method of \<^verbatim>\<open>Ok\<close> and one
  for the method of \<^verbatim>\<open>Err\<close>; the argument \<open>func\<close> is any Python callable, that is,
  any computation over the state that returns or raises. \<^verbatim>\<open>Ok(...)\<close> and
  \<^verbatim>\<open>Err(...)\<close> in the source are calls of the constructors above, inside the
  \<^verbatim>\<open>try\<close> block where the source has them there.
\<close>

fun map_result :: "result \<Rightarrow> (pyval \<Rightarrow> ('u, pyval) py) \<Rightarrow> ('u, result) py" where
  "map_result (Ok val) func =
     try_except_Exception (py_bind (func val) Ok_init) (\<lambda>exc. Err_init (PyExc exc))"
| "map_result (Err error) func = Err_init error"

fun map_err :: "result \<Rightarrow> (pyval \<Rightarrow> ('u, pyval) py) \<Rightarrow> ('u, result) py" where
  "map_err (Ok val) func = Ok_init val"
| "map_err (Err error) func =
     try_except_Exception (py_bind (func error) Err_init) (\<lambda>exc. Err_init (PyExc exc))"

text \<open>
  \<^verbatim>\<open>and_then\<close> returns what \<open>func\<close> returns, without looking at it; \<open>func\<close> has
  the type of its annotation, \<^verbatim>\<open>Callable[[T], Result[U, E]]\<close>.
\<close>

fun and_then :: "result \<Rightarrow> (pyval \<Rightarrow> ('u, result) py) \<Rightarrow> ('u, result) py" where
  "and_then (Ok val) func =
     try_except_Exception (func val) (\<lambda>exc. Err_init (PyExc exc))"
| "and_then (Err error) func = Err_init error"

text \<open>
  The \<^verbatim>\<open>async\<close> methods. An awaitable is modelled by what awaiting it to completion
  does: a computation over the state that returns or raises (whatever other tasks do
  while it is suspended is part of that computation). The call \<^verbatim>\<open>func(self._value)\<close>
  is a computation of its own, which returns the awaitable or raises; a coroutine
  function (\<^verbatim>\<open>async def\<close>) does nothing when called and runs its body when awaited.
  \<open>map_async r func\<close> is what \<^verbatim>\<open>await r.map_async(func)\<close> does.
\<close>

type_synonym ('u, 'a) awaitable = "('u, 'a) py"

definition await :: "('u, 'a) awaitable \<Rightarrow> ('u, 'a) py" where
  "await aw = aw"

definition async_def :: "('x \<Rightarrow> ('u, 'a) py) \<Rightarrow> 'x \<Rightarrow> ('u, ('u, 'a) awaitable) py" where
  "async_def body = (\<lambda>x. py_return (body x))"

fun map_async ::
  "result \<Rightarrow> (pyval \<Rightarrow> ('u, ('u, pyval) awaitable) py) \<Rightarrow> ('u, result) py" where
  "map_async (Ok val) func =
     try_except_Exception (py_bind (py_bind (func val) await) Ok_init)
       (\<lambda>exc. Err_init (PyExc exc))"
| "map_async (Err error) func = Err_init error"

fun and_then_async ::
  "result \<Rightarrow> (pyval \<Rightarrow> ('u, ('u, result) awaitable) py) \<Rightarrow> ('u, result) py" where
  "and_then_async (Ok val) func =
     try_except_Exception (py_bind (func val) await) (\<lambda>exc. Err_init (PyExc exc))"
| "and_then_async (Err error) func = Err_init error"

section \<open>The decorators \<^verbatim>\<open>resultify\<close> and \<^verbatim>\<open>async_resultify\<close>\<close>

text \<open>
  The decorators accept any callable (\<^verbatim>\<open>Callable[..., T]\<close>) and read four attributes
  of it without a guard: \<^verbatim>\<open>__name__\<close>, \<^verbatim>\<open>__qualname__\<close>, \<^verbatim>\<open>__doc__\<close> and
  \<^verbatim>\<open>__annotations__\<close>. A function defined with \<^verbatim>\<open>def\<close> has all four; other
  callables need not (\<^verbatim>\<open>len\<close> has no \<^verbatim>\<open>__annotations__\<close>, a
  \<^verbatim>\<open>functools.partial\<close> has no \<^verbatim>\<open>__name__\<close>), and reading a missing attribute
  raises \<^verbatim>\<open>AttributeError\<close>. So an attribute of a callable is optional, \<open>None\<close>
  when the object does not have it. Its value is an object of the universe above or a
  dictionary (from names to annotations, each given by its source text).
\<close>

datatype pyattr =
    AttrVal pyval
  | AttrDict "(string \<times> string) list"

record ('u, 'r) pyfunc =
  fn_name :: "pyattr option"
  fn_qualname :: "pyattr option"
  fn_doc :: "pyattr option"
  fn_annotations :: "pyattr option"
  fn_call :: "pyval list \<Rightarrow> (string \<times> pyval) list \<Rightarrow> ('u, 'r) py"

text \<open>
  \<^verbatim>\<open>func.attr\<close>: the value, or \<^verbatim>\<open>AttributeError\<close> (its message shortened to the
  attribute's name).
\<close>

definition getattr :: "pyattr option \<Rightarrow> string \<Rightarrow> ('u, pyattr) py" where
  "getattr a name =
     (case a of
        Some x \<Rightarrow> py_return x
      | None \<Rightarrow> py_bind (new_exc AttributeError name) py_raise)"

text \<open>
  Assignments to the attributes of the wrapper, which is a function object: Python
  accepts only a string for \<^verbatim>\<open>__name__\<close> and \<^verbatim>\<open>__qualname__\<close>, anything for
  \<^verbatim>\<open>__doc__\<close>, and only a dictionary for \<^verbatim>\<open>__annotations__\<close>; it raises
  \<^verbatim>\<open>TypeError\<close> otherwise.
\<close>

fun is_str :: "pyattr \<Rightarrow> bool" where
  "is_str (AttrVal (PyStr n)) = True"
| "is_str x = False"

fun is_dict :: "pyattr \<Rightarrow> bool" where
  "is_dict (AttrDict d) = True"
| "is_dict x = False"

definition set_name :: "pyattr \<Rightarrow> ('u, 'r) pyfunc \<Rightarrow> ('u, ('u, 'r) pyfunc) py" where
  "set_name x w =
     (if is_str x then py_return (w\<lparr>fn_name := Some x\<rparr>)
      else py_bind (new_exc TypeError ''__name__ must be set to a string object'') py_raise)"

definition set_qualname :: "pyattr \<Rightarrow> ('u, 'r) pyfunc \<Rightarrow> ('u, ('u, 'r) pyfunc) py" where
  "set_qualname x w =
     (if is_str x then py_return (w\<lparr>fn_qualname := Some x\<rparr>)
      else py_bind (new_exc TypeError ''__qualname__ must be set to a string object'') py_raise)"

definition set_doc :: "pyattr \<Rightarrow> ('u, 'r) pyfunc \<Rightarrow> ('u, ('u, 'r) pyfunc) py" where
  "set_doc x w = py_return (w\<lparr>fn_doc := Some x\<rparr>)"

definition set_annotations :: "pyattr \<Rightarrow> ('u, 'r) pyfunc \<Rightarrow> ('u, ('u, 'r) pyfunc) py" where
  "set_annotations x w =
     (if is_dict x then py_return (w\<lparr>fn_annotations := Some x\<rparr>)
      else py_bind (new_exc TypeError ''__annotations__ must be set to a dict object'') py_raise)"

text \<open>
  \<^verbatim>\<open>x.copy()\<close>: a dictionary returns an equal dictionary; no other object of the
  universe has a method \<^verbatim>\<open>copy\<close>.
\<close>

fun copy_attr :: "pyattr \<Rightarrow> ('u, pyattr) py" where
  "copy_attr (AttrDict d) = py_return (AttrDict d)"
| "copy_attr (AttrVal x) = py_bind (new_exc AttributeError ''copy'') py_raise"

text \<open>
  The four statements that follow the definition of the wrapper in both decorators, in
  the order of the source; each reads the attribute of \<open>func\<close> and then assigns it.
\<close>

definition copy_metadata ::
  "('u, 'a) pyfunc \<Rightarrow> ('u, 'r) pyfunc \<Rightarrow> ('u, ('u, 'r) pyfunc) py" where
  "copy_metadata func wrapper =
     py_bind (getattr (fn_name func) ''__name__'') (\<lambda>n.
     py_bind (set_name n wrapper) (\<lambda>w1.
     py_bind (getattr (fn_qualname func) ''__qualname__'') (\<lambda>q.
     py_bind (set_qualname q w1) (\<lambda>w2.
     py_bind (getattr (fn_doc func) ''__doc__'') (\<lambda>d.
     py_bind (set_doc d w2) (\<lambda>w3.
     py_bind (getattr (fn_annotations func) ''__annotations__'') (\<lambda>a.
     py_bind (copy_attr a) (\<lambda>c.
     set_annotations c w3))))))))"



text \<open>
  The callables on which all four statements succeed: name and qualified name are
  strings, \<^verbatim>\<open>__doc__\<close> exists, \<^verbatim>\<open>__annotations__\<close> is a dictionary.
\<close>

fun str_attr :: "pyattr option \<Rightarrow> bool" where
  "str_attr (Some x) = is_str x"
| "str_attr None = False"

fun dict_attr :: "pyattr option \<Rightarrow> bool" where
  "dict_attr (Some x) = is_dict x"
| "dict_attr None = False"

fun some_attr :: "pyattr option \<Rightarrow> bool" where
  "some_attr (Some x) = True"
| "some_attr None = False"

definition has_metadata :: "('u, 'a) pyfunc \<Rightarrow> bool" where
  "has_metadata func =
     (str_attr (fn_name func) \<and> str_attr (fn_qualname func) \<and>
      some_attr (fn_doc func) \<and> dict_attr (fn_annotations func))"

section \<open>Callables and objects of the test suite\<close>

text \<open>
  The functions \<^verbatim>\<open>inc\<close>, \<^verbatim>\<open>fail\<close> and \<^verbatim>\<open>maybe_raise\<close> of
  \<^verbatim>\<open>tests/test_result_api.py\<close>, the lambdas used there, and a callable that
  counts its calls in the state. They are the concrete inputs at which the theorems
  below are instantiated. Where Python itself raises a \<^verbatim>\<open>TypeError\<close> (an operand
  that is not a number, a call with the wrong arguments) its message is abbreviated.
\<close>

fun inc :: "pyval \<Rightarrow> ('u, pyval) py" where
  "inc (PyInt x) = py_return (PyInt (x + 1))"
| "inc x = py_bind (new_exc TypeError ''unsupported operand type(s) for +'') py_raise"

definition fail :: "pyval \<Rightarrow> ('u, 'a) py" where
  "fail x = py_bind (new_exc ValueError ''boom'') py_raise"

definition ok_inc :: "pyval \<Rightarrow> ('u, result) py" where
  "ok_inc x = py_bind (inc x) Ok_init"

definition to_runtime_error :: "pyval \<Rightarrow> ('u, pyval) py" where
  "to_runtime_error e = py_bind (new_exc RuntimeError ''mapped'') (\<lambda>x. py_return (PyExc x))"

definition const_42 :: "pyval \<Rightarrow> ('u, pyval) py" where
  "const_42 e = py_return (PyInt 42)"

definition tick :: "pyval \<Rightarrow> (nat, pyval) py" where
  "tick x = (\<lambda>s. (Inr x, s\<lparr>user := Suc (user s)\<rparr>))"

definition tick_ok :: "pyval \<Rightarrow> (nat, result) py" where
  "tick_ok x = (\<lambda>s. (Inr (Ok x), s\<lparr>user := Suc (user s)\<rparr>))"







definition exc_bad :: pyexc where
  "exc_bad = \<lparr>exc_id = 0, exc_class = ValueError, exc_msg = ''bad''\<rparr>"

definition w0 :: "nat world" where
  "w0 = \<lparr>next_id = 1, user = 0\<rparr>"

section \<open>Basic facts\<close>

lemmas py_defs =
  py_return_def py_raise_def py_bind_def new_exc_def try_except_Exception_def
  Ok_init_def Err_init_def await_def async_def_def

lemma Err_init_Exception:
  "isinstance_Exception error \<Longrightarrow> Err_init error s = (Inr (Err error), s)"
  by (simp add: Err_init_def py_return_def)

lemma Err_init_other:
  "\<not> isinstance_Exception x \<Longrightarrow>
   Err_init x s =
     (Inl \<lparr>exc_id = next_id s, exc_class = TypeError,
           exc_msg = ''Err expects an Exception instance.''\<rparr>,
      s\<lparr>next_id := Suc (next_id s)\<rparr>)"
  by (simp add: Err_init_def py_bind_def new_exc_def py_raise_def)

lemma py_eq_iff: "py_eq x y = (x = y)"
  and result_eq_iff: "result_eq r y = (y = PyResult r)"
  by (induction x y and r y rule: py_eq_result_eq.induct)
     (auto split: pyval.splits result.splits)

lemma await_async_def: "py_bind (async_def body x) await = body x"
  by (rule ext) (simp add: py_bind_def async_def_def py_return_def await_def)

text \<open>
  The handler of every combinator is \<^verbatim>\<open>return Err(exc)\<close>. What a \<^verbatim>\<open>try\<close> block
  with that handler returns or raises depends only on what its body returns or raises.
\<close>

lemma try_except_fst:
  "fst (ba s) = fst (bb s) \<Longrightarrow>
   fst (try_except_Exception ba (\<lambda>exc. Err_init (PyExc exc)) s)
     = fst (try_except_Exception bb (\<lambda>exc. Err_init (PyExc exc)) s)"
  by (cases "ba s"; cases "bb s")
     (auto simp: try_except_Exception_def Err_init_def py_return_def split: sum.splits)

lemma bind_Ok_init_fst:
  "fst (ma s) = fst (mb s) \<Longrightarrow> fst (py_bind ma Ok_init s) = fst (py_bind mb Ok_init s)"
  by (cases "ma s"; cases "mb s")
     (auto simp: py_bind_def Ok_init_def py_return_def split: sum.splits)

text \<open>
  An exception that is not an instance of \<^verbatim>\<open>Exception\<close> (a \<^verbatim>\<open>KeyboardInterrupt\<close>,
  say) is not an error in the sense of the error capability; \<^verbatim>\<open>except Exception\<close>
  lets it through.
\<close>

lemma Ok_map_lets_non_Exception_through:
  "func v s = (Inl e, s') \<Longrightarrow> \<not> issubclass_Exception (exc_class e) \<Longrightarrow>
   map_result (Ok v) func s = (Inl e, s')"
  by (simp add: py_defs)

section \<open>\<^verbatim>\<open>map\<close> on \<^verbatim>\<open>Ok\<close>\<close>

text \<open>
  Claim C1. For every value \<open>v\<close> and every function \<open>func\<close>: when \<open>func v\<close> returns
  \<open>u\<close>, \<^verbatim>\<open>Ok(v).map(func)\<close> returns \<^verbatim>\<open>Ok(u)\<close>; when \<open>func v\<close> raises an
  exception \<open>e\<close> that is an instance of \<^verbatim>\<open>Exception\<close>, \<^verbatim>\<open>Ok(v).map(func)\<close> returns
  \<^verbatim>\<open>Err(e)\<close> and raises nothing. In both cases the state is the one \<open>func\<close> left.
\<close>

theorem Ok_map_applies_or_captures:
  "(func v s = (Inr u, s') \<longrightarrow> map_result (Ok v) func s = (Inr (Ok u), s')) \<and>
   (func v s = (Inl e, s') \<and> issubclass_Exception (exc_class e) \<longrightarrow>
      map_result (Ok v) func s = (Inr (Err (PyExc e)), s'))"
  by (simp add: py_defs)

text \<open>
  The test suite's \<^verbatim>\<open>Ok(1).map(inc)\<close> and \<^verbatim>\<open>Ok(1).map(fail)\<close>: the first is
  \<^verbatim>\<open>Ok(2)\<close>, the second holds the \<^verbatim>\<open>ValueError("boom")\<close> that \<^verbatim>\<open>fail\<close> raised.
\<close>

theorem Ok_map_applies_or_captures_witness:
  "inc (PyInt 1) w0 = (Inr (PyInt 2), w0) \<and>
   map_result (Ok (PyInt 1)) inc w0 = (Inr (Ok (PyInt 2)), w0) \<and>
   fail (PyInt 1) w0 =
     (Inl \<lparr>exc_id = 1, exc_class = ValueError, exc_msg = ''boom''\<rparr>, w0\<lparr>next_id := 2\<rparr>) \<and>
   issubclass_Exception ValueError \<and>
   map_result (Ok (PyInt 1)) fail w0 =
     (Inr (Err (PyExc \<lparr>exc_id = 1, exc_class = ValueError, exc_msg = ''boom''\<rparr>)),
      w0\<lparr>next_id := 2\<rparr>)"
  using Ok_map_applies_or_captures
      [where func = inc and v = "PyInt 1" and s = w0 and u = "PyInt 2" and s' = w0]
    Ok_map_applies_or_captures
      [where func = fail and v = "PyInt 1" and s = w0
        and e = "\<lparr>exc_id = 1, exc_class = ValueError, exc_msg = ''boom''\<rparr>"
        and s' = "w0\<lparr>next_id := 2\<rparr>"]
  by (simp add: py_defs fail_def w0_def)

section \<open>The combinators on \<^verbatim>\<open>Err\<close> that do not call their argument\<close>

text \<open>
  Claim C3. For every error \<open>e\<close> (an instance of \<^verbatim>\<open>Exception\<close>) and every function,
  \<^verbatim>\<open>Err(e).map(f)\<close>, \<^verbatim>\<open>Err(e).and_then(g)\<close>, \<^verbatim>\<open>await Err(e).map_async(f')\<close> and
  \<^verbatim>\<open>await Err(e).and_then_async(g')\<close> each return \<^verbatim>\<open>Err(e)\<close>. The function is never
  called: it ranges over all computations, those that write to the state included, and
  the state after the call is the state before it.
\<close>

theorem Err_propagates_without_calling:
  "isinstance_Exception e \<Longrightarrow>
   map_result (Err e) f s = (Inr (Err e), s) \<and>
   and_then (Err e) g s = (Inr (Err e), s) \<and>
   map_async (Err e) f' s = (Inr (Err e), s) \<and>
   and_then_async (Err e) g' s = (Inr (Err e), s)"
  by (simp add: Err_init_Exception)

text \<open>
  With callables that count their calls in the state: the counter, which one call would
  set to 1, is still 0 after each of the four combinators.
\<close>

theorem Err_propagates_without_calling_witness:
  "isinstance_Exception (PyExc exc_bad) \<and>
   map_result (Err (PyExc exc_bad)) tick w0 = (Inr (Err (PyExc exc_bad)), w0) \<and>
   and_then (Err (PyExc exc_bad)) tick_ok w0 = (Inr (Err (PyExc exc_bad)), w0) \<and>
   map_async (Err (PyExc exc_bad)) (async_def tick) w0 = (Inr (Err (PyExc exc_bad)), w0) \<and>
   and_then_async (Err (PyExc exc_bad)) (async_def tick_ok) w0
     = (Inr (Err (PyExc exc_bad)), w0) \<and>
   user w0 = 0 \<and> user (snd (tick PyNone w0)) = 1"
  using Err_propagates_without_calling
      [where e = "PyExc exc_bad" and f = tick and g = tick_ok and f' = "async_def tick"
        and g' = "async_def tick_ok" and s = w0]
  by (simp add: exc_bad_def w0_def tick_def)

section \<open>Queries and extraction\<close>

text \<open>
  Claim C2. For every value \<open>v\<close>: \<^verbatim>\<open>Ok(v)\<close> is constructed without error,
  \<^verbatim>\<open>is_ok()\<close> is true, \<^verbatim>\<open>is_err()\<close> is false, \<^verbatim>\<open>unwrap()\<close> returns \<open>v\<close> and
  \<^verbatim>\<open>unwrap_or(d)\<close> returns \<open>v\<close> for any \<open>d\<close>. For every \<open>e\<close> that is an instance of
  \<^verbatim>\<open>Exception\<close>: \<^verbatim>\<open>Err(e)\<close> is constructed without error, \<^verbatim>\<open>is_err()\<close> is true,
  \<^verbatim>\<open>is_ok()\<close> is false, \<^verbatim>\<open>unwrap()\<close> raises exactly the object \<open>e\<close> (and leaves the
  state as it was), and \<^verbatim>\<open>unwrap_or(d)\<close> returns \<open>d\<close> for any \<open>d\<close>.
\<close>

theorem Ok_Err_query_and_unwrap:
  "Ok_init v s = (Inr (Ok v), s) \<and> is_ok (Ok v) \<and> \<not> is_err (Ok v) \<and>
   unwrap (Ok v) s = (Inr v, s) \<and> unwrap_or (Ok v) d = v \<and>
   (isinstance_Exception e \<longrightarrow>
      Err_init e s = (Inr (Err e), s) \<and> is_err (Err e) \<and> \<not> is_ok (Err e) \<and>
      (\<exists>x. e = PyExc x \<and> unwrap (Err e) s = (Inl x, s)) \<and> unwrap_or (Err e) d = d)"
  by (cases e) (simp_all add: py_defs)

text \<open>
  The test suite's \<^verbatim>\<open>Ok("hello").unwrap()\<close>, \<^verbatim>\<open>Ok(5).unwrap_or(0)\<close>,
  \<^verbatim>\<open>Err(ValueError("bad")).unwrap()\<close> and \<^verbatim>\<open>.unwrap_or(0)\<close>.
\<close>

theorem Ok_Err_query_and_unwrap_witness:
  "isinstance_Exception (PyExc exc_bad) \<and>
   Err_init (PyExc exc_bad) w0 = (Inr (Err (PyExc exc_bad)), w0) \<and>
   is_err (Err (PyExc exc_bad)) \<and> \<not> is_ok (Err (PyExc exc_bad)) \<and>
   unwrap (Err (PyExc exc_bad)) w0 = (Inl exc_bad, w0) \<and>
   unwrap_or (Err (PyExc exc_bad)) (PyInt 0) = PyInt 0 \<and>
   unwrap (Ok (PyStr ''hello'')) w0 = (Inr (PyStr ''hello''), w0) \<and>
   unwrap_or (Ok (PyInt 5)) (PyInt 0) = PyInt 5"
  using Ok_Err_query_and_unwrap
      [where v = "PyStr ''hello''" and s = w0 and d = "PyInt 0" and e = "PyExc exc_bad"]
  by (simp add: exc_bad_def)

section \<open>Construction of \<^verbatim>\<open>Err\<close>\<close>

text \<open>
  Claim C6. For every payload \<open>x\<close> that is not an instance of \<^verbatim>\<open>Exception\<close>,
  \<^verbatim>\<open>Err(x)\<close> raises a new \<^verbatim>\<open>TypeError("Err expects an Exception instance.")\<close> and
  builds no object; for every \<open>x\<close> that is one, \<^verbatim>\<open>Err(x)\<close> returns the object that
  holds \<open>x\<close> itself and changes nothing else.
\<close>

theorem Err_init_checks_payload:
  "(\<not> isinstance_Exception x \<longrightarrow>
      Err_init x s =
        (Inl \<lparr>exc_id = next_id s, exc_class = TypeError,
              exc_msg = ''Err expects an Exception instance.''\<rparr>,
         s\<lparr>next_id := Suc (next_id s)\<rparr>)) \<and>
   (isinstance_Exception x \<longrightarrow> Err_init x s = (Inr (Err x), s))"
  by (simp add: Err_init_Exception Err_init_other)

theorem Err_init_checks_payload_witness:
  "\<not> isinstance_Exception (PyInt 42) \<and>
   Err_init (PyInt 42) w0 =
     (Inl \<lparr>exc_id = 1, exc_class = TypeError,
           exc_msg = ''Err expects an Exception instance.''\<rparr>, w0\<lparr>next_id := 2\<rparr>) \<and>
   isinstance_Exception (PyExc exc_bad) \<and>
   Err_init (PyExc exc_bad) w0 = (Inr (Err (PyExc exc_bad)), w0)"
  using Err_init_checks_payload [where x = "PyInt 42" and s = w0]
    Err_init_checks_payload [where x = "PyExc exc_bad" and s = w0]
  by (simp add: exc_bad_def w0_def)

section \<open>Equality\<close>

text \<open>
  Claim C7. For all results \<open>a\<close> and \<open>b\<close>, \<^verbatim>\<open>a == b\<close> holds if and only if both are
  \<^verbatim>\<open>Ok\<close> with payloads equal under \<^verbatim>\<open>==\<close>, or both are \<^verbatim>\<open>Err\<close> with payloads
  equal under \<^verbatim>\<open>==\<close>; an \<^verbatim>\<open>Ok\<close> and an \<^verbatim>\<open>Err\<close> are never equal, whatever they
  hold; and \<^verbatim>\<open>a != other\<close> is the negation of \<^verbatim>\<open>a == other\<close> for any object
  \<open>other\<close>.
\<close>

theorem result_eq_variant_and_payload:
  "result_eq a (PyResult b) =
     ((\<exists>x y. a = Ok x \<and> b = Ok y \<and> py_eq x y) \<or>
      (\<exists>x y. a = Err x \<and> b = Err y \<and> py_eq x y)) \<and>
   result_eq (Ok x) (PyResult (Err y)) = False \<and>
   result_eq (Err x) (PyResult (Ok y)) = False \<and>
   result_ne a other = (\<not> result_eq a other)"
  by (cases a; cases b) (simp_all add: result_ne_def)

text \<open>
  \<^verbatim>\<open>Ok(2) == Ok(2)\<close>, \<^verbatim>\<open>Ok(2) != Ok(3)\<close>, \<^verbatim>\<open>Ok(e) != Err(e)\<close>,
  \<^verbatim>\<open>Err(e) == Err(e)\<close>, two exception objects with the same class and message are
  different payloads, and \<^verbatim>\<open>Ok(2) != 2\<close>.
\<close>

theorem result_eq_variant_and_payload_witness:
  "result_eq (Ok (PyInt 2)) (PyResult (Ok (PyInt 2))) \<and>
   result_ne (Ok (PyInt 2)) (PyResult (Ok (PyInt 3))) \<and>
   result_ne (Ok (PyExc exc_bad)) (PyResult (Err (PyExc exc_bad))) \<and>
   result_eq (Err (PyExc exc_bad)) (PyResult (Err (PyExc exc_bad))) \<and>
   result_ne (Err (PyExc exc_bad)) (PyResult (Err (PyExc (exc_bad\<lparr>exc_id := 7\<rparr>)))) \<and>
   result_ne (Ok (PyInt 2)) (PyInt 2)"
  using result_eq_variant_and_payload [where a = "Ok (PyInt 2)" and b = "Ok (PyInt 2)"]
  by (simp add: result_ne_def exc_bad_def)

section \<open>\<^verbatim>\<open>map_err\<close>\<close>

text \<open>
  Claim C10. For every held error \<open>e\<close> and every function \<open>f\<close> such that \<open>f e\<close>
  returns a value \<open>v\<close> that is not an instance of \<^verbatim>\<open>Exception\<close>,
  \<^verbatim>\<open>Err(e).map_err(f)\<close> raises nothing: the \<^verbatim>\<open>TypeError\<close> that \<^verbatim>\<open>Err(v)\<close> raises
  is caught by the \<^verbatim>\<open>except\<close> clause around it, and the call returns an \<^verbatim>\<open>Err\<close>
  that holds this \<^verbatim>\<open>TypeError\<close>.
\<close>

theorem map_err_captures_construction_error:
  "f e s = (Inr v, s') \<Longrightarrow> \<not> isinstance_Exception v \<Longrightarrow>
   map_err (Err e) f s =
     (Inr (Err (PyExc \<lparr>exc_id = next_id s', exc_class = TypeError,
                       exc_msg = ''Err expects an Exception instance.''\<rparr>)),
      s'\<lparr>next_id := Suc (next_id s')\<rparr>)"
  by (simp add: py_defs)

text \<open>\<^verbatim>\<open>Err(ValueError("bad")).map_err(lambda e: 42)\<close>.\<close>

theorem map_err_captures_construction_error_witness:
  "const_42 (PyExc exc_bad) w0 = (Inr (PyInt 42), w0) \<and>
   \<not> isinstance_Exception (PyInt 42) \<and>
   map_err (Err (PyExc exc_bad)) const_42 w0 =
     (Inr (Err (PyExc \<lparr>exc_id = 1, exc_class = TypeError,
                       exc_msg = ''Err expects an Exception instance.''\<rparr>)),
      w0\<lparr>next_id := 2\<rparr>)"
  using map_err_captures_construction_error
      [where f = const_42 and e = "PyExc exc_bad" and s = w0 and v = "PyInt 42" and s' = w0]
  by (simp add: const_42_def py_return_def w0_def)

text \<open>
  Claim C4 says that \<^verbatim>\<open>Err(e).map_err(f)\<close> equals \<^verbatim>\<open>Err(f(e))\<close> whenever \<open>f e\<close>
  returns. It does not when \<open>f e\<close> returns an object that is not an instance of
  \<^verbatim>\<open>Exception\<close>: with \<^verbatim>\<open>f = lambda e: 42\<close> the call returns an \<^verbatim>\<open>Err\<close> holding a
  \<^verbatim>\<open>TypeError\<close>, which is neither an \<^verbatim>\<open>Err\<close> holding 42 nor what \<^verbatim>\<open>Err(42)\<close>
  does (it raises).
\<close>

theorem map_err_non_error_result_counterexample:
  "const_42 (PyExc exc_bad) w0 = (Inr (PyInt 42), w0) \<and>
   map_err (Err (PyExc exc_bad)) const_42 w0 \<noteq> (Inr (Err (PyInt 42)), w0) \<and>
   map_err (Err (PyExc exc_bad)) const_42 w0 \<noteq> Err_init (PyInt 42) w0 \<and>
   fst (Err_init (PyInt 42) w0) =
     Inl \<lparr>exc_id = 1, exc_class = TypeError,
          exc_msg = ''Err expects an Exception instance.''\<rparr> \<and>
   fst (map_err (Err (PyExc exc_bad)) const_42 w0) =
     Inr (Err (PyExc \<lparr>exc_id = 1, exc_class = TypeError,
                      exc_msg = ''Err expects an Exception instance.''\<rparr>))"
  by (simp add: py_defs const_42_def w0_def)

text \<open>
  Claim C4, amended. For every value \<open>v\<close> and function \<open>f\<close>, \<^verbatim>\<open>Ok(v).map_err(f)\<close>
  returns \<^verbatim>\<open>Ok(v)\<close> and \<open>f\<close> is never called (the state is unchanged, whatever
  \<open>f\<close> would do to it). For every held error \<open>e\<close>: when \<open>f e\<close> returns an object
  \<open>e'\<close> that is an instance of \<^verbatim>\<open>Exception\<close>, \<^verbatim>\<open>Err(e).map_err(f)\<close> returns
  \<^verbatim>\<open>Err(e')\<close>; when \<open>f e\<close> raises an error (an instance of \<^verbatim>\<open>Exception\<close>),
  it returns an \<^verbatim>\<open>Err\<close> that holds the raised error, not \<open>e\<close>.
\<close>

theorem map_err_maps_errors:
  "map_err (Ok v) f s = (Inr (Ok v), s) \<and>
   (f e s = (Inr e', s') \<and> isinstance_Exception e' \<longrightarrow>
      map_err (Err e) f s = (Inr (Err e'), s')) \<and>
   (f e s = (Inl raised, s') \<and> issubclass_Exception (exc_class raised) \<longrightarrow>
      map_err (Err e) f s = (Inr (Err (PyExc raised)), s'))"
  by (simp add: py_defs)

text \<open>
  \<^verbatim>\<open>Ok(2).map_err(tick)\<close> leaves the call counter at 0;
  \<^verbatim>\<open>Err(ValueError("bad")).map_err(lambda e: RuntimeError("mapped"))\<close> holds the new
  \<^verbatim>\<open>RuntimeError\<close>; with \<^verbatim>\<open>fail\<close> as the mapper the result holds the
  \<^verbatim>\<open>ValueError("boom")\<close> that \<^verbatim>\<open>fail\<close> raised.
\<close>

theorem map_err_maps_errors_witness:
  "map_err (Ok (PyInt 2)) tick w0 = (Inr (Ok (PyInt 2)), w0) \<and>
   to_runtime_error (PyExc exc_bad) w0 =
     (Inr (PyExc \<lparr>exc_id = 1, exc_class = RuntimeError, exc_msg = ''mapped''\<rparr>),
      w0\<lparr>next_id := 2\<rparr>) \<and>
   isinstance_Exception
     (PyExc \<lparr>exc_id = 1, exc_class = RuntimeError, exc_msg = ''mapped''\<rparr>) \<and>
   map_err (Err (PyExc exc_bad)) to_runtime_error w0 =
     (Inr (Err (PyExc \<lparr>exc_id = 1, exc_class = RuntimeError, exc_msg = ''mapped''\<rparr>)),
      w0\<lparr>next_id := 2\<rparr>) \<and>
   fail (PyExc exc_bad) w0 =
     (Inl \<lparr>exc_id = 1, exc_class = ValueError, exc_msg = ''boom''\<rparr>,
      w0\<lparr>next_id := 2\<rparr>) \<and>
   map_err (Err (PyExc exc_bad)) fail w0 =
     (Inr (Err (PyExc \<lparr>exc_id = 1, exc_class = ValueError, exc_msg = ''boom''\<rparr>)),
      w0\<lparr>next_id := 2\<rparr>)"
  using map_err_maps_errors [where v = "PyInt 2" and f = tick and s = w0]
    map_err_maps_errors
      [where f = to_runtime_error and e = "PyExc exc_bad" and s = w0
        and e' = "PyExc \<lparr>exc_id = 1, exc_class = RuntimeError, exc_msg = ''mapped''\<rparr>"
        and s' = "w0\<lparr>next_id := 2\<rparr>"]
    map_err_maps_errors
      [where f = fail and e = "PyExc exc_bad" and s = w0
        and raised = "\<lparr>exc_id = 1, exc_class = ValueError, exc_msg = ''boom''\<rparr>"
        and s' = "w0\<lparr>next_id := 2\<rparr>"]
  by (simp add: py_defs fail_def to_runtime_error_def w0_def)

section \<open>\<^verbatim>\<open>and_then\<close> on \<^verbatim>\<open>Ok\<close>\<close>

text \<open>
  Claim C5. For every value \<open>v\<close> and every function \<open>f\<close> that returns a result: when
  \<open>f v\<close> returns \<open>r\<close>, \<^verbatim>\<open>Ok(v).and_then(f)\<close> returns \<open>r\<close> itself; when \<open>f v\<close>
  raises an error \<open>e\<close> (an instance of \<^verbatim>\<open>Exception\<close>), \<^verbatim>\<open>Ok(v).and_then(f)\<close>
  returns \<^verbatim>\<open>Err(e)\<close>.
\<close>

theorem Ok_and_then_returns_or_captures:
  "(f v s = (Inr r, s') \<longrightarrow> and_then (Ok v) f s = (Inr r, s')) \<and>
   (f v s = (Inl e, s') \<and> issubclass_Exception (exc_class e) \<longrightarrow>
      and_then (Ok v) f s = (Inr (Err (PyExc e)), s'))"
  by (simp add: py_defs)

text \<open>\<^verbatim>\<open>Ok(2).and_then(lambda x: Ok(x + 1))\<close> and \<^verbatim>\<open>Ok(2).and_then(fail)\<close>.\<close>

theorem Ok_and_then_returns_or_captures_witness:
  "ok_inc (PyInt 2) w0 = (Inr (Ok (PyInt 3)), w0) \<and>
   and_then (Ok (PyInt 2)) ok_inc w0 = (Inr (Ok (PyInt 3)), w0) \<and>
   fail (PyInt 2) w0 =
     (Inl \<lparr>exc_id = 1, exc_class = ValueError, exc_msg = ''boom''\<rparr>,
      w0\<lparr>next_id := 2\<rparr>) \<and>
   issubclass_Exception ValueError \<and>
   and_then (Ok (PyInt 2)) fail w0 =
     (Inr (Err (PyExc \<lparr>exc_id = 1, exc_class = ValueError, exc_msg = ''boom''\<rparr>)),
      w0\<lparr>next_id := 2\<rparr>)"
  using Ok_and_then_returns_or_captures
      [where f = ok_inc and v = "PyInt 2" and s = w0 and r = "Ok (PyInt 3)" and s' = w0]
    Ok_and_then_returns_or_captures
      [where f = fail and v = "PyInt 2" and s = w0
        and e = "\<lparr>exc_id = 1, exc_class = ValueError, exc_msg = ''boom''\<rparr>"
        and s' = "w0\<lparr>next_id := 2\<rparr>"]
  by (simp add: py_defs ok_inc_def fail_def w0_def)

section \<open>The \<^verbatim>\<open>async\<close> combinators against the blocking ones\<close>

text \<open>
  Claim C8. Let \<open>r\<close> be any result, \<open>f\<close> and \<open>g\<close> blocking functions and \<open>f'\<close>
  and \<open>g'\<close> functions whose call, once awaited, returns the same value or raises the
  same exception as \<open>f\<close> and \<open>g\<close> on the payload of \<open>r\<close>. Then
  \<^verbatim>\<open>await r.map_async(f')\<close> returns or raises what \<^verbatim>\<open>r.map(f)\<close> does, and
  \<^verbatim>\<open>await r.and_then_async(g')\<close> what \<^verbatim>\<open>r.and_then(g)\<close> does.
\<close>

theorem async_agrees_with_blocking:
  "(\<forall>v. r = Ok v \<longrightarrow> fst (py_bind (f' v) await s) = fst (f v s)) \<and>
   (\<forall>v. r = Ok v \<longrightarrow> fst (py_bind (g' v) await s) = fst (g v s)) \<longrightarrow>
   fst (map_async r f' s) = fst (map_result r f s) \<and>
   fst (and_then_async r g' s) = fst (and_then r g s)"
proof (cases r)
  case (Ok v)
  show ?thesis
  proof (intro impI conjI)
    assume h: "(\<forall>v. r = Ok v \<longrightarrow> fst (py_bind (f' v) await s) = fst (f v s)) \<and>
      (\<forall>v. r = Ok v \<longrightarrow> fst (py_bind (g' v) await s) = fst (g v s))"
    from h Ok have hf: "fst (py_bind (f' v) await s) = fst (f v s)" by simp
    from h Ok have hg: "fst (py_bind (g' v) await s) = fst (g v s)" by simp
    have "fst (py_bind (py_bind (f' v) await) Ok_init s) = fst (py_bind (f v) Ok_init s)"
      using hf by (rule bind_Ok_init_fst [where ma = "py_bind (f' v) await" and mb = "f v"])
    then have "fst (try_except_Exception (py_bind (py_bind (f' v) await) Ok_init)
                 (\<lambda>exc. Err_init (PyExc exc)) s)
             = fst (try_except_Exception (py_bind (f v) Ok_init)
                 (\<lambda>exc. Err_init (PyExc exc)) s)"
      by (rule try_except_fst)
    with Ok show "fst (map_async r f' s) = fst (map_result r f s)" by simp
    have "fst (try_except_Exception (py_bind (g' v) await) (\<lambda>exc. Err_init (PyExc exc)) s)
        = fst (try_except_Exception (g v) (\<lambda>exc. Err_init (PyExc exc)) s)"
      using hg by (rule try_except_fst [where ba = "py_bind (g' v) await" and bb = "g v"])
    with Ok show "fst (and_then_async r g' s) = fst (and_then r g s)" by simp
  qed
next
  case (Err e)
  then show ?thesis by simp
qed

text \<open>
  The test suite's \<^verbatim>\<open>await Ok(3).map_async(async_inc)\<close>, which is \<^verbatim>\<open>Ok(4)\<close> as
  \<^verbatim>\<open>Ok(3).map(inc)\<close> is, the same for \<^verbatim>\<open>and_then_async\<close>, and a coroutine
  function that raises.
\<close>

theorem async_agrees_with_blocking_witness:
  "fst (py_bind (async_def inc (PyInt 3)) await w0) = fst (inc (PyInt 3) w0) \<and>
   fst (py_bind (async_def ok_inc (PyInt 3)) await w0) = fst (ok_inc (PyInt 3) w0) \<and>
   fst (map_async (Ok (PyInt 3)) (async_def inc) w0) = Inr (Ok (PyInt 4)) \<and>
   fst (map_result (Ok (PyInt 3)) inc w0) = Inr (Ok (PyInt 4)) \<and>
   fst (and_then_async (Ok (PyInt 3)) (async_def ok_inc) w0) = Inr (Ok (PyInt 4)) \<and>
   fst (and_then (Ok (PyInt 3)) ok_inc w0) = Inr (Ok (PyInt 4)) \<and>
   fst (map_async (Ok (PyInt 3)) (async_def fail) w0) =
     Inr (Err (PyExc \<lparr>exc_id = 1, exc_class = ValueError, exc_msg = ''boom''\<rparr>)) \<and>
   fst (map_result (Ok (PyInt 3)) fail w0) =
     Inr (Err (PyExc \<lparr>exc_id = 1, exc_class = ValueError, exc_msg = ''boom''\<rparr>))"
  using async_agrees_with_blocking
      [where r = "Ok (PyInt 3)" and f = inc and f' = "async_def inc"
        and g = ok_inc and g' = "async_def ok_inc" and s = w0]
    async_agrees_with_blocking
      [where r = "Ok (PyInt 3)" and f = fail and f' = "async_def fail"
        and g = fail and g' = "async_def fail" and s = w0]
  by (simp add: await_async_def py_defs ok_inc_def fail_def w0_def)

section \<open>\<^verbatim>\<open>resultify\<close> and \<^verbatim>\<open>async_resultify\<close>\<close>

lemmas attr_defs =
  getattr_def set_name_def set_qualname_def set_doc_def set_annotations_def


text \<open>
  On any other callable one of the four statements raises, and the decorator returns
  no wrapper.
\<close>

lemma copy_metadata_returns:
  "copy_metadata func w s = (Inr w', s') \<Longrightarrow> has_metadata func"
  by (cases "fn_name func"; cases "fn_qualname func"; cases "fn_doc func";
      cases "fn_annotations func"; cases "the (fn_annotations func)")
     (auto simp: has_metadata_def copy_metadata_def attr_defs py_return_def py_bind_def
        py_raise_def new_exc_def split: if_splits)




end
